theory Spec2Isabelle
  imports Main
begin

section \<open>Python values shared by the two notebooks\<close>

text \<open>
  A Python \<open>str\<close> is a sequence of Unicode code points; \<open>len\<close> counts code points and
  slicing cuts between them. The notebooks print emoji, so a string is modelled as the list
  of its code points rather than as a list of 8-bit characters.
\<close>

type_synonym pystr = "nat list"

definition str_of :: "string \<Rightarrow> pystr" where
  "str_of s = map of_char s"

text \<open>
  The exceptions of the model: \<open>KeyError\<close> of a dictionary lookup, and
  \<open>ExternalError\<close> for whatever a call into the transformers library raises.
\<close>

datatype py_error = KeyError | ExternalError

text \<open>
  \<open>str.isspace\<close> for one code point, the set CPython 3.11 uses for \<open>str.strip()\<close>
  without arguments.
\<close>

definition py_isspace :: "nat \<Rightarrow> bool" where
  "py_isspace c \<longleftrightarrow>
     (0x09 \<le> c \<and> c \<le> 0x0D) \<or> (0x1C \<le> c \<and> c \<le> 0x20) \<or> c = 0x85 \<or> c = 0xA0 \<or>
     c = 0x1680 \<or> (0x2000 \<le> c \<and> c \<le> 0x200A) \<or> c = 0x2028 \<or> c = 0x2029 \<or>
     c = 0x202F \<or> c = 0x205F \<or> c = 0x3000"

definition lstrip :: "pystr \<Rightarrow> pystr" where
  "lstrip s = dropWhile py_isspace s"

definition rstrip :: "pystr \<Rightarrow> pystr" where
  "rstrip s = rev (dropWhile py_isspace (rev s))"

definition strip :: "pystr \<Rightarrow> pystr" where
  "strip s = rstrip (lstrip s)"


section \<open>The word prediction notebook: \<open>predict_text\<close>\<close>

text \<open>
  The text-generation pipeline \<open>generator\<close> belongs to the transformers library. It is a
  parameter of the model: a function from the prompt and the keyword arguments of the call
  to either an exception or the list of output dictionaries.
\<close>

record 'f gen_args =
  max_new_tokens :: int
  temperature :: 'f
  num_return_sequences :: int
  pad_token_id :: int
  do_sample :: bool

type_synonym gen_output = "string \<rightharpoonup> pystr"

type_synonym 'f generator = "pystr \<Rightarrow> 'f gen_args \<Rightarrow> py_error + gen_output list"

text \<open>The slice \<open>generated_text[len(prompt):]\<close> followed by \<open>.strip()\<close>.\<close>

definition completion_of :: "pystr \<Rightarrow> pystr \<Rightarrow> pystr" where
  "completion_of prompt generated_text = strip (drop (length prompt) generated_text)"

text \<open>The \<open>for output in outputs\<close> loop; \<open>output['generated_text']\<close> raises on a missing key.\<close>

fun extract_completions :: "pystr \<Rightarrow> gen_output list \<Rightarrow> pystr list \<Rightarrow> py_error + pystr list" where
  "extract_completions prompt [] completions = Inr completions"
| "extract_completions prompt (output # outputs) completions =
     (case output ''generated_text'' of
        None \<Rightarrow> Inl KeyError
      | Some generated_text \<Rightarrow>
          extract_completions prompt outputs
            (completions @ [completion_of prompt generated_text]))"

definition predict_text ::
  "'f generator \<Rightarrow> int \<Rightarrow> pystr \<Rightarrow> int \<Rightarrow> 'f \<Rightarrow> int \<Rightarrow> py_error + pystr list" where
  "predict_text generator eos_token_id prompt max_new_tokens_arg temperature_arg n =
     (case generator prompt
             \<lparr>max_new_tokens = max_new_tokens_arg, temperature = temperature_arg,
              num_return_sequences = n, pad_token_id = eos_token_id, do_sample = True\<rparr> of
        Inl e \<Rightarrow> Inl e
      | Inr outputs \<Rightarrow> extract_completions prompt outputs [])"


section \<open>The tokenization notebook: \<open>analyze_tokenization\<close>\<close>

text \<open>
  The tokenizers are objects of the transformers library; the notebook only calls their
  \<open>encode\<close> and \<open>convert_ids_to_tokens\<close> methods, which are fields of the model's
  tokenizer record.
\<close>

record lib_tokenizer =
  tk_encode :: "pystr \<Rightarrow> int list"
  convert_ids_to_tokens :: "int list \<Rightarrow> pystr list"

text \<open>One constructor per \<open>print\<close> call of the function, holding the interpolated values.\<close>

datatype print_event =
    PrintHeading pystr
  | PrintOriginalSentence pystr
  | PrintCharacterLength nat
  | PrintNumberOfTokens nat
  | PrintTokens "pystr list"
  | PrintBreakdownHeading
  | PrintBreakdownLine nat pystr

text \<open>The notebook's global table \<open>tokenizers\<close> and the cell's standard output.\<close>

record notebook =
  tokenizers :: "pystr \<rightharpoonup> lib_tokenizer"
  stdout :: "print_event list"

definition breakdown_lines :: "int list \<Rightarrow> pystr list \<Rightarrow> print_event list" where
  "breakdown_lines tokens token_strings =
     map (\<lambda>(i, (token_id, token_str)). PrintBreakdownLine (i + 1) token_str)
       (enumerate 0 (zip tokens token_strings))"

definition analyze_tokenization ::
  "notebook \<Rightarrow> pystr \<Rightarrow> pystr option \<Rightarrow> (py_error + int) \<times> notebook" where
  "analyze_tokenization nb sentence name_arg =
     (let tokenizer_name = (case name_arg of None \<Rightarrow> str_of ''GPT-2'' | Some n \<Rightarrow> n) in
      case tokenizers nb tokenizer_name of
        None \<Rightarrow> (Inl KeyError, nb)
      | Some tokenizer \<Rightarrow>
          (let tokens = tk_encode tokenizer sentence;
               token_strings = convert_ids_to_tokens tokenizer tokens;
               printed =
                 [PrintHeading tokenizer_name,
                  PrintOriginalSentence sentence,
                  PrintCharacterLength (length sentence),
                  PrintNumberOfTokens (length tokens),
                  PrintTokens token_strings,
                  PrintBreakdownHeading] @ breakdown_lines tokens token_strings
           in (Inr (int (length tokens)), nb\<lparr>stdout := stdout nb @ printed\<rparr>)))"

text \<open>A toy tokenizer (one token per code point) and a notebook holding it, for concrete runs.\<close>

definition char_tokenizer :: lib_tokenizer where
  "char_tokenizer = \<lparr>tk_encode = map int, convert_ids_to_tokens = map (\<lambda>i. [nat i])\<rparr>"

definition demo_notebook :: notebook where
  "demo_notebook = \<lparr>tokenizers = [str_of ''GPT-2'' \<mapsto> char_tokenizer], stdout = []\<rparr>"


section \<open>Properties of \<open>predict_text\<close>\<close>

lemma dropWhile_rev_edges:
  assumes t: "t = [] \<or> \<not> P (hd t)" and u: "dropWhile P (rev t) \<noteq> []"
  shows "\<not> P (hd (rev (dropWhile P (rev t)))) \<and> \<not> P (last (rev (dropWhile P (rev t))))"
proof -
  let ?u = "dropWhile P (rev t)"
  have lastc: "\<not> P (hd ?u)" using u by (rule hd_dropWhile)
  have "rev t = takeWhile P (rev t) @ ?u" by simp
  then have "t = rev ?u @ rev (takeWhile P (rev t))"
    by (metis rev_append rev_rev_ident)
  then have "hd t = hd (rev ?u)" using u by (metis hd_append2 rev_is_Nil_conv)
  moreover have "t \<noteq> []" using u by auto
  ultimately have "\<not> P (hd (rev ?u))" using t by simp
  moreover have "last (rev ?u) = hd ?u" using u by (simp add: last_rev)
  ultimately show ?thesis using lastc by simp
qed

lemma strip_no_edge_space:
  assumes "strip s \<noteq> []"
  shows "\<not> py_isspace (hd (strip s)) \<and> \<not> py_isspace (last (strip s))"
proof -
  have "dropWhile py_isspace s = [] \<or> \<not> py_isspace (hd (dropWhile py_isspace s))"
    using hd_dropWhile [of py_isspace s] by blast
  moreover have "dropWhile py_isspace (rev (dropWhile py_isspace s)) \<noteq> []"
    using assms unfolding strip_def rstrip_def lstrip_def by simp
  ultimately show ?thesis
    unfolding strip_def rstrip_def lstrip_def by (rule dropWhile_rev_edges)
qed

lemma length_strip_le: "length (strip s) \<le> length s"
proof -
  have "length (dropWhile py_isspace (rev (dropWhile py_isspace s))) \<le> length (dropWhile py_isspace s)"
    by (metis length_dropWhile_le length_rev)
  also have "\<dots> \<le> length s" by (rule length_dropWhile_le)
  finally show ?thesis by (simp add: strip_def rstrip_def lstrip_def)
qed

lemma length_strip_less:
  assumes "s \<noteq> []" "py_isspace (hd s)"
  shows "length (strip s) < length s"
proof -
  obtain c cs where s: "s = c # cs" using assms(1) by (cases s) auto
  with assms(2) have "dropWhile py_isspace s = dropWhile py_isspace cs" by simp
  then have "length (dropWhile py_isspace s) \<le> length cs" by (simp add: length_dropWhile_le)
  moreover have "length (dropWhile py_isspace (rev (dropWhile py_isspace s))) \<le> length (dropWhile py_isspace s)"
    by (metis length_dropWhile_le length_rev)
  ultimately show ?thesis using s by (simp add: strip_def rstrip_def lstrip_def)
qed

lemma completion_not_recomposable:
  assumes "drop (length prompt) g \<noteq> []" "py_isspace (hd (drop (length prompt) g))"
  shows "prompt @ completion_of prompt g \<noteq> g"
proof
  assume eq: "prompt @ completion_of prompt g = g"
  have "length prompt < length g" using assms(1) by simp
  then have "length g = length prompt + length (drop (length prompt) g)" by simp
  moreover have "length (completion_of prompt g) < length (drop (length prompt) g)"
    unfolding completion_of_def using assms by (rule length_strip_less)
  moreover have "length (prompt @ completion_of prompt g) = length g" using eq by simp
  ultimately show False by simp
qed

lemma strip_decompose:
  "\<exists>lead trail. s = lead @ strip s @ trail \<and>
     (\<forall>x \<in> set lead. py_isspace x) \<and> (\<forall>x \<in> set trail. py_isspace x)"
proof -
  let ?t = "dropWhile py_isspace s"
  let ?lead = "takeWhile py_isspace s"
  let ?trail = "rev (takeWhile py_isspace (rev ?t))"
  have "rev ?t = takeWhile py_isspace (rev ?t) @ dropWhile py_isspace (rev ?t)" by simp
  then have "?t = rev (dropWhile py_isspace (rev ?t)) @ ?trail"
    by (metis rev_append rev_rev_ident)
  then have t: "?t = strip s @ ?trail" by (simp add: strip_def rstrip_def lstrip_def)
  have "s = ?lead @ ?t" by simp
  with t have "s = ?lead @ strip s @ ?trail" by simp
  moreover have "\<forall>x \<in> set ?lead. py_isspace x" by (auto dest: set_takeWhileD)
  moreover have "\<forall>x \<in> set ?trail. py_isspace x" by (auto dest: set_takeWhileD)
  ultimately show ?thesis by blast
qed

lemma extract_completions_eq:
  assumes "\<forall>out \<in> set outputs. out ''generated_text'' \<noteq> None"
  shows "extract_completions prompt outputs acc =
         Inr (acc @ map (\<lambda>out. completion_of prompt (the (out ''generated_text''))) outputs)"
  using assms by (induction outputs arbitrary: acc) auto

lemma extract_completions_missing_key:
  assumes "\<exists>out \<in> set outputs. out ''generated_text'' = None"
  shows "extract_completions prompt outputs acc = Inl KeyError"
  using assms
proof (induction outputs arbitrary: acc)
  case Nil
  then show ?case by simp
next
  case (Cons out outputs)
  show ?case
  proof (cases "out ''generated_text''")
    case None
    then show ?thesis by simp
  next
    case (Some g)
    with Cons.prems have "\<exists>out \<in> set outputs. out ''generated_text'' = None" by auto
    then show ?thesis using Some Cons.IH by simp
  qed
qed

text \<open>
  Claim C9, as the code has it. When the pipeline call raises, \<open>predict_text\<close> raises the
  same exception; when an output dictionary has no \<open>generated_text\<close>, it raises
  \<open>KeyError\<close>; otherwise it returns one string for each output dictionary the pipeline
  returned, in order, so exactly \<open>n\<close> strings when the pipeline returned \<open>n\<close> outputs:
  the function never compares the two numbers itself. Each string is the generated text
  without its first \<open>len(prompt)\<close> characters, stripped: the text after the prompt is a
  run of whitespace, the completion, and a run of whitespace, and the completion neither
  begins nor ends with whitespace. When the text after the prompt began with whitespace,
  prompt plus completion is not the generated text.
\<close>

theorem predict_text_stripped_completions:
  "(case generator prompt
           \<lparr>max_new_tokens = m, temperature = t, num_return_sequences = n,
            pad_token_id = eos, do_sample = True\<rparr> of
      Inl e \<Rightarrow> predict_text generator eos prompt m t n = Inl e
    | Inr outputs \<Rightarrow>
        if \<exists>out \<in> set outputs. out ''generated_text'' = None
        then predict_text generator eos prompt m t n = Inl KeyError
        else \<exists>completions.
           predict_text generator eos prompt m t n = Inr completions \<and>
           length completions = length outputs \<and>
           list_all2
             (\<lambda>out c. \<exists>g lead trail. out ''generated_text'' = Some g \<and>
                c = strip (drop (length prompt) g) \<and>
                drop (length prompt) g = lead @ c @ trail \<and>
                (\<forall>x \<in> set lead. py_isspace x) \<and> (\<forall>x \<in> set trail. py_isspace x) \<and>
                (c \<noteq> [] \<longrightarrow> \<not> py_isspace (hd c) \<and> \<not> py_isspace (last c)) \<and>
                (drop (length prompt) g \<noteq> [] \<and> py_isspace (hd (drop (length prompt) g))
                   \<longrightarrow> prompt @ c \<noteq> g))
             outputs completions)"
proof (cases "generator prompt
           \<lparr>max_new_tokens = m, temperature = t, num_return_sequences = n,
            pad_token_id = eos, do_sample = True\<rparr>")
  case (Inl e)
  then show ?thesis by (simp add: predict_text_def)
next
  case (Inr outputs)
  show ?thesis
  proof (cases "\<exists>out \<in> set outputs. out ''generated_text'' = None")
    case True
    then have "extract_completions prompt outputs [] = Inl KeyError"
      by (rule extract_completions_missing_key)
    with Inr True show ?thesis by (simp add: predict_text_def)
  next
    case False
    then have key: "\<forall>out \<in> set outputs. out ''generated_text'' \<noteq> None" by simp
    let ?R = "\<lambda>out c. \<exists>g lead trail. out ''generated_text'' = Some g \<and>
                c = strip (drop (length prompt) g) \<and>
                drop (length prompt) g = lead @ c @ trail \<and>
                (\<forall>x \<in> set lead. py_isspace x) \<and> (\<forall>x \<in> set trail. py_isspace x) \<and>
                (c \<noteq> [] \<longrightarrow> \<not> py_isspace (hd c) \<and> \<not> py_isspace (last c)) \<and>
                (drop (length prompt) g \<noteq> [] \<and> py_isspace (hd (drop (length prompt) g))
                   \<longrightarrow> prompt @ c \<noteq> g)"
    let ?cs = "map (\<lambda>out. completion_of prompt (the (out ''generated_text''))) outputs"
    have run: "predict_text generator eos prompt m t n = Inr ?cs"
      using Inr extract_completions_eq [OF key, of prompt "[]"]
      by (simp add: predict_text_def)
    have each: "?R out (completion_of prompt (the (out ''generated_text'')))"
      if "out \<in> set outputs" for out
    proof -
      from that key obtain g where g: "out ''generated_text'' = Some g" by auto
      let ?rest = "drop (length prompt) g"
      obtain lead trail where parts: "?rest = lead @ strip ?rest @ trail"
        "\<forall>x \<in> set lead. py_isspace x" "\<forall>x \<in> set trail. py_isspace x"
        using strip_decompose [of ?rest] by blast
      have edges: "strip ?rest \<noteq> [] \<longrightarrow>
              \<not> py_isspace (hd (strip ?rest)) \<and> \<not> py_isspace (last (strip ?rest))"
        using strip_no_edge_space by blast
      have lost: "?rest \<noteq> [] \<and> py_isspace (hd ?rest) \<longrightarrow> prompt @ strip ?rest \<noteq> g"
        using completion_not_recomposable [of prompt g] by (simp add: completion_of_def)
      show ?thesis
        unfolding g option.sel completion_of_def
        using parts edges lost by blast
    qed
    have "list_all2 ?R outputs ?cs"
      unfolding list_all2_map2 by (rule list_all2_same [THEN iffD2]) (use each in blast)
    with run have "\<exists>completions.
           predict_text generator eos prompt m t n = Inr completions \<and>
           length completions = length outputs \<and> list_all2 ?R outputs completions"
      by simp
    with False show ?thesis by (simp only: Inr sum.case if_False)
  qed
qed

text \<open>
  The theorem at a pipeline that answers every prompt with the prompt followed by
  \<open>" will change "\<close>, once for each sequence asked for, here two.
\<close>

theorem predict_text_stripped_completions_witness:
  "\<exists>completions.
     predict_text
       (\<lambda>p a. Inr (replicate (nat (num_return_sequences a))
                      [''generated_text'' \<mapsto> p @ str_of '' will change ''])
          :: py_error + gen_output list)
       50256 (str_of ''AI'') 10 (1::int) 2 = Inr completions \<and>
     length completions = 2 \<and>
     list_all2
       (\<lambda>out c. \<exists>g lead trail. out ''generated_text'' = Some g \<and>
          c = strip (drop (length (str_of ''AI'')) g) \<and>
          drop (length (str_of ''AI'')) g = lead @ c @ trail \<and>
          (\<forall>x \<in> set lead. py_isspace x) \<and> (\<forall>x \<in> set trail. py_isspace x) \<and>
          (c \<noteq> [] \<longrightarrow> \<not> py_isspace (hd c) \<and> \<not> py_isspace (last c)) \<and>
          (drop (length (str_of ''AI'')) g \<noteq> [] \<and>
           py_isspace (hd (drop (length (str_of ''AI'')) g))
             \<longrightarrow> str_of ''AI'' @ c \<noteq> g))
       (replicate 2 [''generated_text'' \<mapsto> str_of ''AI'' @ str_of '' will change ''])
       completions"
  using predict_text_stripped_completions
          [where generator = "\<lambda>p a. Inr (replicate (nat (num_return_sequences a))
                          [''generated_text'' \<mapsto> p @ str_of '' will change ''])"
             and prompt = "str_of ''AI''" and m = 10 and t = "1::int" and n = 2 and eos = 50256]
  by (simp add: numeral_2_eq_2)

text \<open>
  The same run, evaluated: both completions lose the space that followed the prompt and
  the one that ended the generated text.
\<close>

lemma predict_text_example:
  "predict_text
     (\<lambda>p a. Inr (replicate (nat (num_return_sequences a))
                    [''generated_text'' \<mapsto> p @ str_of '' will change ''])
        :: py_error + gen_output list)
     50256 (str_of ''AI'') 10 (1::int) 2 = Inr [str_of ''will change'', str_of ''will change'']"
  by (simp add: predict_text_def numeral_2_eq_2 completion_of_def strip_def rstrip_def
        lstrip_def str_of_def py_isspace_def)

text \<open>
  Claim C9 as stated, exactly \<open>n\<close> strings for every prompt and every \<open>n\<close>, fails where
  the pipeline does not deliver \<open>n\<close> outputs: a call that raises (as sampling with
  temperature 0 does) returns no list, and a pipeline that answers a request for 0
  sequences with one output makes \<open>predict_text\<close> return one string.
\<close>

theorem predict_text_count_not_checked:
  "predict_text (\<lambda>p a. Inl ExternalError) 50256 (str_of ''AI'') 60 (0::int) 1 =
     Inl ExternalError \<and>
   predict_text (\<lambda>p a. Inr [[''generated_text'' \<mapsto> p @ str_of '' grows'']])
     50256 (str_of ''AI'') 10 (1::int) 0 = Inr [str_of ''grows'']"
  by (simp add: predict_text_def completion_of_def strip_def rstrip_def lstrip_def
        str_of_def py_isspace_def)


section \<open>Properties of \<open>analyze_tokenization\<close>\<close>

lemma breakdown_lines_no_count:
  "PrintNumberOfTokens k \<notin> set (breakdown_lines tokens token_strings)"
  by (auto simp: breakdown_lines_def)

text \<open>
  Claim C10, for a tokenizer name that is a key of the \<open>tokenizers\<close> table:
  \<open>analyze_tokenization\<close> returns \<open>len(tokenizer.encode(sentence))\<close>, the one token
  count it prints is that same number, and the table is left as it was; a name that is
  not a key raises \<open>KeyError\<close> before anything is printed; with no name given the call
  is the call with \<open>'GPT-2'\<close>. The sentence is an immutable Python string.
\<close>

theorem analyze_tokenization_token_count:
  "(tokenizers nb name = Some tokenizer \<longrightarrow>
      fst (analyze_tokenization nb sentence (Some name)) =
        Inr (int (length (tk_encode tokenizer sentence))) \<and>
      (\<exists>before after.
         stdout (snd (analyze_tokenization nb sentence (Some name))) =
           stdout nb @ before @ [PrintNumberOfTokens (length (tk_encode tokenizer sentence))] @ after \<and>
         (\<forall>k. PrintNumberOfTokens k \<notin> set before \<and> PrintNumberOfTokens k \<notin> set after))) \<and>
   (tokenizers nb name = None \<longrightarrow>
      analyze_tokenization nb sentence (Some name) = (Inl KeyError, nb)) \<and>
   tokenizers (snd (analyze_tokenization nb sentence name_arg)) = tokenizers nb \<and>
   analyze_tokenization nb sentence None = analyze_tokenization nb sentence (Some (str_of ''GPT-2''))"
proof (intro conjI impI)
  assume tk: "tokenizers nb name = Some tokenizer"
  then show "fst (analyze_tokenization nb sentence (Some name)) =
        Inr (int (length (tk_encode tokenizer sentence)))"
    by (simp add: analyze_tokenization_def Let_def)
  let ?tokens = "tk_encode tokenizer sentence"
  let ?before = "[PrintHeading name, PrintOriginalSentence sentence,
                  PrintCharacterLength (length sentence)]"
  let ?after = "[PrintTokens (convert_ids_to_tokens tokenizer ?tokens), PrintBreakdownHeading]
                 @ breakdown_lines ?tokens (convert_ids_to_tokens tokenizer ?tokens)"
  have "stdout (snd (analyze_tokenization nb sentence (Some name))) =
           stdout nb @ ?before @ [PrintNumberOfTokens (length ?tokens)] @ ?after"
    using tk by (simp add: analyze_tokenization_def Let_def)
  moreover have "\<forall>k. PrintNumberOfTokens k \<notin> set ?before \<and> PrintNumberOfTokens k \<notin> set ?after"
    using breakdown_lines_no_count by simp
  ultimately show "\<exists>before after.
         stdout (snd (analyze_tokenization nb sentence (Some name))) =
           stdout nb @ before @ [PrintNumberOfTokens (length (tk_encode tokenizer sentence))] @ after \<and>
         (\<forall>k. PrintNumberOfTokens k \<notin> set before \<and> PrintNumberOfTokens k \<notin> set after)"
    by blast
next
  assume "tokenizers nb name = None"
  then show "analyze_tokenization nb sentence (Some name) = (Inl KeyError, nb)"
    by (simp add: analyze_tokenization_def)
next
  show "tokenizers (snd (analyze_tokenization nb sentence name_arg)) = tokenizers nb"
    by (simp add: analyze_tokenization_def Let_def split: option.splits)
next
  show "analyze_tokenization nb sentence None = analyze_tokenization nb sentence (Some (str_of ''GPT-2''))"
    by (simp add: analyze_tokenization_def)
qed

text \<open>The theorem on a notebook whose only tokenizer is \<open>'GPT-2'\<close>.\<close>

theorem analyze_tokenization_token_count_witness:
  "tokenizers demo_notebook (str_of ''GPT-2'') = Some char_tokenizer \<and>
   fst (analyze_tokenization demo_notebook (str_of ''Hello, world!'') None) = Inr 13 \<and>
   tokenizers (snd (analyze_tokenization demo_notebook (str_of ''Hello, world!'') None)) =
     tokenizers demo_notebook"
proof -
  have tk: "tokenizers demo_notebook (str_of ''GPT-2'') = Some char_tokenizer"
    by (simp add: demo_notebook_def)
  have len: "int (length (tk_encode char_tokenizer (str_of ''Hello, world!''))) = 13"
    by (simp add: char_tokenizer_def str_of_def)
  from analyze_tokenization_token_count
         [of demo_notebook "str_of ''GPT-2''" char_tokenizer "str_of ''Hello, world!''" None]
  show ?thesis using tk len by auto
qed

text \<open>
  Claim C10 as stated, for every tokenizer name, fails at a name outside the table:
  the call raises \<open>KeyError\<close> and returns no count.
\<close>

theorem analyze_tokenization_unknown_name:
  "analyze_tokenization demo_notebook (str_of ''Hello, world!'') (Some (str_of ''T5'')) =
     (Inl KeyError, demo_notebook)"
  by (simp add: analyze_tokenization_def demo_notebook_def str_of_def)

end
